theory Spec2Isabelle
  imports Main "HOL-Library.Word" "HOL-Library.Signed_Division"
begin

section \<open>Rolling restart options and the bare-metal storage restarter of ydbops\<close>

text \<open>
  The development embeds two Go files of the repository:
  \<^item> \<^verbatim>\<open>pkg/options/restart.go\<close>: \<^verbatim>\<open>RestartOptions\<close> with \<^verbatim>\<open>Validate\<close>,
    \<^verbatim>\<open>GetRestartDuration\<close>, \<^verbatim>\<open>GetNodeFQDNs\<close> and \<^verbatim>\<open>GetNodeIds\<close>;
  \<^item> the \<^verbatim>\<open>restarters\<close> file with \<^verbatim>\<open>stripCommandFromArgs\<close>,
    \<^verbatim>\<open>restartNodeBySystemdUnit\<close> and \<^verbatim>\<open>StorageBaremetalRestarter\<close>.

  Go strings are byte strings: \<^typ>\<open>string\<close>. Go's \<^verbatim>\<open>int\<close> is taken at its width on the
  64-bit platforms the tool is built for; \<^verbatim>\<open>time.Duration\<close> and \<^verbatim>\<open>int64\<close> are
  \<^typ>\<open>64 word\<close> read with \<^const>\<open>sint\<close>, \<^verbatim>\<open>uint32\<close> is \<^typ>\<open>32 word\<close>. A Go \<^verbatim>\<open>error\<close>
  result is an \<open>error option\<close> (\<open>None\<close> is \<^verbatim>\<open>nil\<close>) or the left side of a sum.
\<close>

subsection \<open>Byte classes and string helpers of the Go standard library\<close>

definition isDigit :: "char \<Rightarrow> bool" where
  "isDigit c = (c \<in> set ''0123456789'')"

definition isAlpha :: "char \<Rightarrow> bool" where
  "isAlpha c = (c \<in> set ''abcdefghijklmnopqrstuvwxyzABCDEFGHIJKLMNOPQRSTUVWXYZ'')"

definition ishex :: "char \<Rightarrow> bool" where
  "ishex c = (c \<in> set ''0123456789abcdefABCDEF'')"

text \<open>\<^verbatim>\<open>unhex\<close> of net/url: the value of a hexadecimal digit.\<close>

definition unhex :: "char \<Rightarrow> nat" where
  "unhex c =
     (if isDigit c then of_char c - 48
      else if c \<in> set ''abcdef'' then of_char c - 97 + 10
      else if c \<in> set ''ABCDEF'' then of_char c - 65 + 10
      else 0)"

fun HasPrefix :: "string \<Rightarrow> string \<Rightarrow> bool" where
  "HasPrefix s [] = True"
| "HasPrefix [] (p # ps) = False"
| "HasPrefix (c # cs) (p # ps) = (c = p \<and> HasPrefix cs ps)"

text \<open>\<^verbatim>\<open>strings.Cut\<close> at a one-byte separator: the text before the first separator and the
  text after it (the whole string and the empty string when there is none).\<close>

definition Cut :: "string \<Rightarrow> char \<Rightarrow> string \<times> string" where
  "Cut s sep = (takeWhile (\<lambda>c. c \<noteq> sep) s, drop 1 (dropWhile (\<lambda>c. c \<noteq> sep) s))"

text \<open>\<^verbatim>\<open>strings.LastIndex\<close> and \<^verbatim>\<open>strings.Index\<close>; \<open>None\<close> is Go's \<open>-1\<close>.\<close>

definition LastIndexByte :: "string \<Rightarrow> char \<Rightarrow> nat option" where
  "LastIndexByte s c =
     (if c \<in> set s then Some (length s - 1 - length (takeWhile (\<lambda>x. x \<noteq> c) (rev s)))
      else None)"

fun Index :: "string \<Rightarrow> string \<Rightarrow> nat option" where
  "Index [] sub = (if sub = [] then Some 0 else None)"
| "Index (c # cs) sub =
     (if HasPrefix (c # cs) sub then Some 0 else map_option Suc (Index cs sub))"

subsection \<open>\<^verbatim>\<open>strconv.Atoi\<close>\<close>

text \<open>
  Go standard library, not part of the repository. \<^verbatim>\<open>Atoi(s)\<close> is \<^verbatim>\<open>ParseInt(s, 10, 0)\<close>
  (its fast path for short inputs computes the same result): an optional sign, then
  \<^verbatim>\<open>ParseUint\<close> on at least one decimal digit, reading left to right and stopping at the
  first byte that is no digit (syntax error) or that takes the value out of 64 bits (range
  error); then the range check of the signed 64-bit \<^verbatim>\<open>int\<close>.
\<close>

datatype num_error = ErrSyntax | ErrRange

definition maxUint64 :: nat where
  "maxUint64 = 18446744073709551615"

fun ParseUint_loop :: "nat \<Rightarrow> string \<Rightarrow> num_error + nat" where
  "ParseUint_loop n [] = Inr n"
| "ParseUint_loop n (c # cs) =
     (if \<not> isDigit c then Inl ErrSyntax
      else if n \<ge> maxUint64 div 10 + 1 then Inl ErrRange
      else if n * 10 + (of_char c - 48) > maxUint64 then Inl ErrRange
      else ParseUint_loop (n * 10 + (of_char c - 48)) cs)"

definition ParseUint :: "string \<Rightarrow> num_error + nat" where
  "ParseUint s = (if s = [] then Inl ErrSyntax else ParseUint_loop 0 s)"

definition Atoi :: "string \<Rightarrow> num_error + int" where
  "Atoi s0 =
     (if s0 = [] then Inl ErrSyntax
      else
        let neg = (hd s0 = CHR ''-'');
            s = (if hd s0 = CHR ''+'' \<or> hd s0 = CHR ''-'' then tl s0 else s0)
        in case ParseUint s of
             Inl ErrSyntax \<Rightarrow> Inl ErrSyntax
           | r \<Rightarrow>
               let un = (case r of Inr n \<Rightarrow> n | Inl _ \<Rightarrow> maxUint64)
               in if \<not> neg \<and> un \<ge> 2 ^ 63 then Inl ErrRange
                  else if neg \<and> un > 2 ^ 63 then Inl ErrRange
                  else Inr (if neg then - int un else int un))"

subsection \<open>\<^verbatim>\<open>url.Parse\<close>\<close>

text \<open>
  Go standard library (net/url as of go1.21), not part of the repository. Only the error
  result matters to the callers here, so the model computes which error, if any,
  \<^verbatim>\<open>url.Parse\<close> returns, and follows the library's order of checks. Later toolchains
  also require a host in brackets to be an IP literal; no property below is about a
  bracketed host.
\<close>

datatype url_error =
    InvalidControlCharacter
  | MissingProtocolScheme
  | FirstPathSegmentColon
  | MissingBracketInHost
  | InvalidPort
  | InvalidUserinfo
  | EscapeError
  | InvalidHostError

datatype encoding = encodePath | encodeHost | encodeZone | encodeUserPassword | encodeFragment

text \<open>\<^verbatim>\<open>shouldEscape(c, encodeHost)\<close>: the only mode \<^verbatim>\<open>unescape\<close> asks it about.\<close>

definition shouldEscapeHost :: "char \<Rightarrow> bool" where
  "shouldEscapeHost c =
     (\<not> (isAlpha c \<or> isDigit c
         \<or> c \<in> set [CHR ''!'', CHR ''$'', CHR ''&'', CHR 0x27, CHR ''('', CHR '')'', CHR ''*'',
                     CHR ''+'', CHR '','', CHR '';'', CHR ''='', CHR '':'', CHR ''['', CHR '']'',
                     CHR ''<'', CHR ''>'', CHR 0x22]
         \<or> c \<in> set ''-_.~''))"

text \<open>\<^verbatim>\<open>unescape\<close>: its first loop, which checks the string and is the only source of
  errors. A \<open>%\<close> needs two hexadecimal digits after it; in a host only \<open>%25\<close> and escapes
  of non-ASCII bytes are allowed, and no ASCII byte that would have to be escaped.\<close>

fun unescape :: "encoding \<Rightarrow> string \<Rightarrow> url_error option" where
  "unescape m [] = None"
| "unescape m (c # cs) =
     (if c = CHR ''%'' then
        (case cs of
           h1 # h2 # rest \<Rightarrow>
             if \<not> ishex h1 \<or> \<not> ishex h2 then Some EscapeError
             else if m = encodeHost \<and> unhex h1 < 8 \<and> [h1, h2] \<noteq> ''25'' then Some EscapeError
             else if m = encodeZone \<and> [h1, h2] \<noteq> ''25''
                     \<and> unhex h1 * 16 + unhex h2 \<noteq> 32
                     \<and> shouldEscapeHost (char_of (unhex h1 * 16 + unhex h2))
                  then Some EscapeError
             else unescape m rest
         | _ \<Rightarrow> Some EscapeError)
      else if (m = encodeHost \<or> m = encodeZone) \<and> (of_char c :: nat) < 128 \<and> shouldEscapeHost c
        then Some InvalidHostError
      else unescape m cs)"

definition stringContainsCTLByte :: "string \<Rightarrow> bool" where
  "stringContainsCTLByte s = list_ex (\<lambda>b. (of_char b :: nat) < 32 \<or> (of_char b :: nat) = 127) s"

fun getScheme_from :: "string \<Rightarrow> nat \<Rightarrow> string \<Rightarrow> url_error + (string \<times> string)" where
  "getScheme_from rawURL i [] = Inr ([], rawURL)"
| "getScheme_from rawURL i (c # cs) =
     (if isAlpha c then getScheme_from rawURL (Suc i) cs
      else if isDigit c \<or> c \<in> set ''+-.'' then
        (if i = 0 then Inr ([], rawURL) else getScheme_from rawURL (Suc i) cs)
      else if c = CHR '':'' then
        (if i = 0 then Inl MissingProtocolScheme else Inr (take i rawURL, drop (Suc i) rawURL))
      else Inr ([], rawURL))"

definition getScheme :: "string \<Rightarrow> url_error + (string \<times> string)" where
  "getScheme rawURL = getScheme_from rawURL 0 rawURL"

definition validOptionalPort :: "string \<Rightarrow> bool" where
  "validOptionalPort port =
     (case port of
        [] \<Rightarrow> True
      | c # ds \<Rightarrow> c = CHR '':'' \<and> list_all isDigit ds)"

definition validUserinfo :: "string \<Rightarrow> bool" where
  "validUserinfo s =
     list_all (\<lambda>r. isAlpha r \<or> isDigit r
                 \<or> r \<in> set [CHR ''-'', CHR ''.'', CHR ''_'', CHR '':'', CHR ''~'', CHR ''!'',
                             CHR ''$'', CHR ''&'', CHR 0x27, CHR ''('', CHR '')'', CHR ''*'',
                             CHR ''+'', CHR '','', CHR '';'', CHR ''='', CHR ''%'', CHR ''@'']) s"

definition parseHost :: "string \<Rightarrow> url_error option" where
  "parseHost host =
     (if HasPrefix host ''['' then
        (case LastIndexByte host CHR '']'' of
           None \<Rightarrow> Some MissingBracketInHost
         | Some i \<Rightarrow>
             if \<not> validOptionalPort (drop (i + 1) host) then Some InvalidPort
             else
               (case Index (take i host) ''%25'' of
                  Some zone \<Rightarrow>
                    (case unescape encodeHost (take zone host) of
                       Some e \<Rightarrow> Some e
                     | None \<Rightarrow>
                         (case unescape encodeZone (drop zone (take i host)) of
                            Some e \<Rightarrow> Some e
                          | None \<Rightarrow> unescape encodeHost (drop i host)))
                | None \<Rightarrow> unescape encodeHost host))
      else
        (case LastIndexByte host CHR '':'' of
           Some i \<Rightarrow>
             if \<not> validOptionalPort (drop i host) then Some InvalidPort
             else unescape encodeHost host
         | None \<Rightarrow> unescape encodeHost host))"

definition parseAuthority :: "string \<Rightarrow> url_error option" where
  "parseAuthority authority =
     (case LastIndexByte authority CHR ''@'' of
        None \<Rightarrow> parseHost authority
      | Some i \<Rightarrow>
          (case parseHost (drop (i + 1) authority) of
             Some e \<Rightarrow> Some e
           | None \<Rightarrow>
               let userinfo = take i authority
               in if \<not> validUserinfo userinfo then Some InvalidUserinfo
                  else if CHR '':'' \<notin> set userinfo then unescape encodeUserPassword userinfo
                  else
                    (case unescape encodeUserPassword (fst (Cut userinfo CHR '':'')) of
                       Some e \<Rightarrow> Some e
                     | None \<Rightarrow> unescape encodeUserPassword (snd (Cut userinfo CHR '':'')))))"

text \<open>\<^verbatim>\<open>parse(rawURL, viaRequest = false)\<close>.\<close>

definition parse :: "string \<Rightarrow> url_error option" where
  "parse rawURL =
     (if stringContainsCTLByte rawURL then Some InvalidControlCharacter
      else if rawURL = ''*'' then None
      else
        (case getScheme rawURL of
           Inl e \<Rightarrow> Some e
         | Inr (scheme, rest0) \<Rightarrow>
             let rest =
                   (if rest0 \<noteq> [] \<and> last rest0 = CHR ''?'' \<and> count_list rest0 CHR ''?'' = 1
                    then butlast rest0
                    else fst (Cut rest0 CHR ''?''))
             in if \<not> HasPrefix rest ''/'' \<and> scheme \<noteq> [] then None
                else if \<not> HasPrefix rest ''/'' \<and> CHR '':'' \<in> set (fst (Cut rest CHR ''/''))
                  then Some FirstPathSegmentColon
                else if (scheme \<noteq> [] \<or> \<not> HasPrefix rest ''///'') \<and> HasPrefix rest ''//'' then
                  (case parseAuthority (takeWhile (\<lambda>c. c \<noteq> CHR ''/'') (drop 2 rest)) of
                     Some e \<Rightarrow> Some e
                   | None \<Rightarrow> unescape encodePath (dropWhile (\<lambda>c. c \<noteq> CHR ''/'') (drop 2 rest)))
                else unescape encodePath rest))"

definition url_Parse :: "string \<Rightarrow> url_error option" where
  "url_Parse rawURL =
     (case parse (fst (Cut rawURL CHR ''#'')) of
        Some e \<Rightarrow> Some e
      | None \<Rightarrow>
          if snd (Cut rawURL CHR ''#'') = [] then None
          else unescape encodeFragment (snd (Cut rawURL CHR ''#'')))"

subsection \<open>\<^verbatim>\<open>pkg/options/restart.go\<close>\<close>

datatype error =
    UnsupportedAvailabilityMode string
  | InvalidRestartDuration int
  | InvalidRestartRetryNumber int
  | FailedToParseHosts error error
  | InvalidHostFqdn string
  | FailedToParseNodeId num_error
  | InvalidNodeId int
  | UnsupportedSshCommand string
  | ExternalError string

definition AvailabilityModes :: "string list" where
  "AvailabilityModes = [''strong'', ''weak'', ''force'']"

text \<open>The struct \<^verbatim>\<open>RestartOptions\<close>. The type of the \<^verbatim>\<open>CMS\<close> sub-options is declared
  in a file that is not among the sources: it is the type parameter \<open>'cms\<close>.\<close>

record 'cms RestartOptions =
  CMS :: 'cms
  AvailabilityMode :: string
  Tenants :: "string list"
  Hosts :: "string list"
  ExcludeHosts :: "string list"
  RestartDuration :: "64 word"
  RestartRetryNumber :: "64 word"
  Continue :: bool

text \<open>Modelled from the spec: \<^verbatim>\<open>util.Contains\<close> of the repository's \<^verbatim>\<open>internal/util\<close>
  package, which is not among the sources. The specification's availability mode is
  "one of {strong, weak, force}": membership of the value in the slice.\<close>

fun Contains :: "'a list \<Rightarrow> 'a \<Rightarrow> bool" where
  "Contains [] x = False"
| "Contains (y # ys) x = (if y = x then True else Contains ys x)"

text \<open>\<^verbatim>\<open>GetNodeFQDNs\<close>: the loop returns at the first host \<^verbatim>\<open>url.Parse\<close> rejects, and
  appends every other host to the result.\<close>

fun GetNodeFQDNs_loop :: "string list \<Rightarrow> string list \<Rightarrow> error + string list" where
  "GetNodeFQDNs_loop hosts [] = Inr hosts"
| "GetNodeFQDNs_loop hosts (hostFqdn # rest) =
     (case url_Parse hostFqdn of
        Some err \<Rightarrow> Inl (InvalidHostFqdn hostFqdn)
      | None \<Rightarrow> GetNodeFQDNs_loop (hosts @ [hostFqdn]) rest)"

definition GetNodeFQDNs :: "('cms, 'z) RestartOptions_scheme \<Rightarrow> error + string list" where
  "GetNodeFQDNs o' = GetNodeFQDNs_loop [] (Hosts o')"

text \<open>\<^verbatim>\<open>GetNodeIds\<close>: \<^verbatim>\<open>uint32(id)\<close> keeps the low 32 bits of the parsed \<^verbatim>\<open>int\<close>.\<close>

fun GetNodeIds_loop :: "32 word list \<Rightarrow> string list \<Rightarrow> error + 32 word list" where
  "GetNodeIds_loop ids [] = Inr ids"
| "GetNodeIds_loop ids (nodeId # rest) =
     (case Atoi nodeId of
        Inl err \<Rightarrow> Inl (FailedToParseNodeId err)
      | Inr id' \<Rightarrow>
          if id' < 0 then Inl (InvalidNodeId id')
          else GetNodeIds_loop (ids @ [word_of_int id']) rest)"

definition GetNodeIds :: "('cms, 'z) RestartOptions_scheme \<Rightarrow> error + 32 word list" where
  "GetNodeIds o' = GetNodeIds_loop [] (Hosts o')"

text \<open>\<^verbatim>\<open>Validate\<close>. \<^verbatim>\<open>CMS.Validate\<close> is declared in a file that is not among the
  sources: its result on the sub-options is the parameter \<open>CMS_Validate\<close>.\<close>

definition Validate :: "('cms \<Rightarrow> error option) \<Rightarrow> ('cms, 'z) RestartOptions_scheme \<Rightarrow> error option" where
  "Validate CMS_Validate o' =
     (if \<not> Contains AvailabilityModes (AvailabilityMode o')
        then Some (UnsupportedAvailabilityMode (AvailabilityMode o'))
      else if sint (RestartDuration o') < 0
        then Some (InvalidRestartDuration (sint (RestartDuration o')))
      else if sint (RestartRetryNumber o') < 0
        then Some (InvalidRestartRetryNumber (sint (RestartRetryNumber o')))
      else
        (case (GetNodeIds o', GetNodeFQDNs o') of
           (Inl errFromIds, Inl errFromFQDNs) \<Rightarrow> Some (FailedToParseHosts errFromIds errFromFQDNs)
         | _ \<Rightarrow> CMS_Validate (CMS o')))"

text \<open>\<^verbatim>\<open>GetRestartDuration\<close>. \<^verbatim>\<open>time.Second\<close> is \<open>10^9\<close> nanoseconds and the product is
  taken in \<^verbatim>\<open>time.Duration\<close>, a signed 64-bit integer that wraps around.
  \<^verbatim>\<open>durationpb.New\<close> (protobuf library) splits the nanoseconds into seconds and a
  remainder with Go's division, which rounds towards zero.\<close>

record Duration =
  Seconds :: "64 word"
  Nanos :: "32 word"

definition time_Second :: "64 word" where
  "time_Second = 1000000000"

definition durationpb_New :: "64 word \<Rightarrow> Duration" where
  "durationpb_New d =
     (let nanos = d;
          secs = (word_of_int (sint nanos sdiv 1000000000) :: 64 word);
          nanos' = nanos - secs * 1000000000
      in \<lparr>Seconds = secs, Nanos = ucast nanos'\<rparr>)"

definition GetRestartDuration :: "('cms, 'z) RestartOptions_scheme \<Rightarrow> Duration" where
  "GetRestartDuration o' =
     durationpb_New (time_Second * RestartDuration o' * RestartRetryNumber o')"

subsection \<open>The \<^verbatim>\<open>restarters\<close> package: bare-metal storage restarter\<close>

text \<open>\<^verbatim>\<open>Ydb_Maintenance.Node\<close> is generated protobuf code outside the repository; the
  fields the restarter reads are the node id, the host and the node type (a storage
  node, a dynamic node of a tenant, or none).\<close>

datatype NodeType = Storage | Dynamic string | NoType

record Node =
  NodeId :: "32 word"
  Host :: string
  Type :: NodeType

text \<open>The options struct of the restarter is declared in a file that is not among the
  sources; \<^verbatim>\<open>RestartNode\<close> reads its fields \<^verbatim>\<open>sshArgs\<close> and \<^verbatim>\<open>kikimrStorageUnit\<close>.\<close>

record StorageBaremetalOpts =
  sshArgs :: "string list"
  kikimrStorageUnit :: bool

record StorageBaremetalRestarter =
  Opts :: StorageBaremetalOpts

definition defaultStorageSystemdUnit :: string where
  "defaultStorageSystemdUnit = ''ydb-server-storage.service''"

definition internalStorageSystemdUnit :: string where
  "internalStorageSystemdUnit = ''kikimr''"

text \<open>\<^verbatim>\<open>stripCommandFromArgs\<close>: the loop carries the command seen last and the arguments
  kept so far.\<close>

fun stripCommandFromArgs_loop :: "string \<Rightarrow> string list \<Rightarrow> string list \<Rightarrow> string \<times> string list" where
  "stripCommandFromArgs_loop command remainingSshArgs [] = (command, remainingSshArgs)"
| "stripCommandFromArgs_loop command remainingSshArgs (arg # args) =
     (if arg = ''ssh'' \<or> arg = ''pssh'' \<or> arg = ''nssh''
      then stripCommandFromArgs_loop arg remainingSshArgs args
      else stripCommandFromArgs_loop command (remainingSshArgs @ [arg]) args)"

definition stripCommandFromArgs :: "string list \<Rightarrow> string \<times> string list" where
  "stripCommandFromArgs args = stripCommandFromArgs_loop ''ssh'' [] args"

text \<open>
  The operating system is the environment of \<^verbatim>\<open>restartNodeBySystemdUnit\<close>: what
  \<^verbatim>\<open>cmd.Start()\<close> and \<^verbatim>\<open>cmd.Wait()\<close> return for a command (its name and its argument
  vector) is given by the two functions of the record \<open>os\<close>, \<open>None\<close> for \<^verbatim>\<open>nil\<close> and
  the message of the error otherwise. The function returns the
  commands it has handed to \<^verbatim>\<open>cmd.Start()\<close>, in order, and its error result. Logging and
  the two goroutines that copy the output streams to the logger are not part of the model.
\<close>

type_synonym command = "string \<times> string list"

record os =
  cmd_Start :: "command \<Rightarrow> string option"
  cmd_Wait :: "command \<Rightarrow> string option"

text \<open>The \<^verbatim>\<open>fmt.Sprintf\<close> that builds the remote command from the unit name.\<close>

definition remoteRestartCommand_Sprintf :: "string \<Rightarrow> string" where
  "remoteRestartCommand_Sprintf unitName =
     ''(test -x /bin/systemctl && sudo systemctl restart '' @ unitName @ '')''"

text \<open>The body of \<^verbatim>\<open>restartNodeBySystemdUnit\<close> after the call of
  \<^verbatim>\<open>stripCommandFromArgs\<close>, as a function of the pair that call returned.\<close>

definition restartNodeBySystemdUnit_with ::
  "os \<Rightarrow> Node \<Rightarrow> string \<Rightarrow> string \<Rightarrow> string list \<Rightarrow> command list \<times> error option" where
  "restartNodeBySystemdUnit_with env node unitName sshCommand remainingSshArgs =
     (let remoteRestartCommand = remoteRestartCommand_Sprintf unitName;
          fullSSHArgs = [''run''] @ remainingSshArgs;
          switch =
            (if sshCommand = ''ssh''
               then Inr (fullSSHArgs @ [Host node, remoteRestartCommand])
             else if sshCommand = ''nssh'' \<or> sshCommand = ''pssh''
               then Inr (fullSSHArgs @ [remoteRestartCommand, Host node])
             else Inl (UnsupportedSshCommand sshCommand))
      in case switch of
           Inl err \<Rightarrow> ([], Some err)
         | Inr fullSSHArgs' \<Rightarrow>
             (case cmd_Start env (sshCommand, fullSSHArgs') of
                Some err \<Rightarrow> ([(sshCommand, fullSSHArgs')], Some (ExternalError err))
              | None \<Rightarrow>
                  (case cmd_Wait env (sshCommand, fullSSHArgs') of
                     Some err \<Rightarrow> ([(sshCommand, fullSSHArgs')], Some (ExternalError err))
                   | None \<Rightarrow> ([(sshCommand, fullSSHArgs')], None))))"

definition restartNodeBySystemdUnit ::
  "os \<Rightarrow> Node \<Rightarrow> string \<Rightarrow> string list \<Rightarrow> command list \<times> error option" where
  "restartNodeBySystemdUnit env node unitName sshArgs' =
     restartNodeBySystemdUnit_with env node unitName
       (fst (stripCommandFromArgs sshArgs')) (snd (stripCommandFromArgs sshArgs'))"

definition RestartNode ::
  "StorageBaremetalRestarter \<Rightarrow> os \<Rightarrow> Node \<Rightarrow> command list \<times> error option" where
  "RestartNode r env node =
     (let systemdUnitName =
            (if kikimrStorageUnit (Opts r) then internalStorageSystemdUnit
             else defaultStorageSystemdUnit)
      in restartNodeBySystemdUnit env node systemdUnitName (sshArgs (Opts r)))"

text \<open>The parameter structs of \<^verbatim>\<open>Filter\<close> are declared in a file that is not among the
  sources; the fields are those the two filters read.\<close>

record FilterNodeParams =
  SelectedNodeIds :: "32 word list"
  SelectedHostFQDNs :: "string list"

record ClusterNodesInfo =
  AllNodes :: "Node list"

text \<open>Modelled from the spec: \<^verbatim>\<open>FilterStorageNodes\<close> is defined in a file of the
  repository that is not among the sources. The specification's bare-metal \<^verbatim>\<open>Filter\<close>
  "selects nodes of the matching kind (e.g., storage)": the nodes of storage type, in
  their order.\<close>

definition FilterStorageNodes :: "Node list \<Rightarrow> Node list" where
  "FilterStorageNodes nodes = filter (\<lambda>node. Type node = Storage) nodes"

text \<open>Modelled from the spec: \<^verbatim>\<open>FilterByNodeIdOrFQDN\<close> is defined in a file of the
  repository that is not among the sources. The specification resolves a filter of
  hosts or of node ids against the nodes: a node is kept when its id is among the
  selected ids or its host among the selected FQDNs.\<close>

definition FilterByNodeIdOrFQDN :: "Node list \<Rightarrow> FilterNodeParams \<Rightarrow> Node list" where
  "FilterByNodeIdOrFQDN nodes spec =
     filter (\<lambda>node. Contains (SelectedNodeIds spec) (NodeId node)
                   \<or> Contains (SelectedHostFQDNs spec) (Host node)) nodes"

text \<open>\<^verbatim>\<open>StorageBaremetalRestarter.Filter\<close>, without its logging.\<close>

definition Filter :: "StorageBaremetalRestarter \<Rightarrow> FilterNodeParams \<Rightarrow> ClusterNodesInfo \<Rightarrow> Node list" where
  "Filter r spec cluster =
     (let allStorageNodes = FilterStorageNodes (AllNodes cluster);
          selectedNodes = FilterByNodeIdOrFQDN allStorageNodes spec
      in selectedNodes)"

text \<open>The values \<^verbatim>\<open>DefineFlags\<close> gives the options when no flag is set: the first
  availability mode, the two default numbers, empty lists. They are the options of the
  examples below, with single fields changed.\<close>

definition DefaultRetryCount :: "64 word" where
  "DefaultRetryCount = 3"

definition DefaultRestartDuration :: "64 word" where
  "DefaultRestartDuration = 3"

definition defaultOptions :: "unit RestartOptions" where
  "defaultOptions =
     \<lparr>CMS = (), AvailabilityMode = AvailabilityModes ! 0, Tenants = [], Hosts = [],
      ExcludeHosts = [], RestartDuration = DefaultRestartDuration,
      RestartRetryNumber = DefaultRetryCount, Continue = False\<rparr>"

text \<open>An operating system on which every command starts and exits without error: the
  environment of the examples below.\<close>

definition successOs :: os where
  "successOs = \<lparr>cmd_Start = (\<lambda>cmd. None), cmd_Wait = (\<lambda>cmd. None)\<rparr>"

subsection \<open>Predicates used to state the properties\<close>

text \<open>The three tool names \<^verbatim>\<open>stripCommandFromArgs\<close> looks for.\<close>

definition isSshCommand :: "string \<Rightarrow> bool" where
  "isSshCommand arg = (arg = ''ssh'' \<or> arg = ''pssh'' \<or> arg = ''nssh'')"

text \<open>An entry that \<^verbatim>\<open>strconv.Atoi\<close> parses, to an integer that is not negative.\<close>

definition isNodeId :: "string \<Rightarrow> bool" where
  "isNodeId s = (case Atoi s of Inl _ \<Rightarrow> False | Inr n \<Rightarrow> 0 \<le> n)"

section \<open>Properties\<close>

subsection \<open>\<^verbatim>\<open>stripCommandFromArgs\<close> and the command that is started\<close>

lemma stripCommandFromArgs_loop_step:
  "stripCommandFromArgs_loop command remaining (arg # args) =
     (if isSshCommand arg then stripCommandFromArgs_loop arg remaining args
      else stripCommandFromArgs_loop command (remaining @ [arg]) args)"
  unfolding isSshCommand_def by (rule stripCommandFromArgs_loop.simps(2))

lemma stripCommandFromArgs_loop_eq:
  "stripCommandFromArgs_loop command remaining args =
     (if filter isSshCommand args = [] then command else last (filter isSshCommand args),
      remaining @ filter (\<lambda>a. \<not> isSshCommand a) args)"
proof (induction args arbitrary: command remaining)
  case Nil
  show ?case by (simp only: stripCommandFromArgs_loop.simps(1)) simp
next
  case (Cons arg args)
  show ?case
  proof (cases "isSshCommand arg")
    case True
    then show ?thesis
      by (simp only: stripCommandFromArgs_loop_step Cons.IH) simp
  next
    case False
    then show ?thesis
      by (simp only: stripCommandFromArgs_loop_step Cons.IH) simp
  qed
qed

lemma stripCommandFromArgs_command:
  "fst (stripCommandFromArgs args) =
     (if filter isSshCommand args = [] then ''ssh'' else last (filter isSshCommand args))"
  by (simp only: stripCommandFromArgs_def stripCommandFromArgs_loop_eq fst_conv)


lemma last_filter_holds: "filter P xs \<noteq> [] \<Longrightarrow> P (last (filter P xs))"
proof -
  assume "filter P xs \<noteq> []"
  then have "last (filter P xs) \<in> set (filter P xs)" by (rule last_in_set)
  then show ?thesis by simp
qed

lemma isSshCommand_ssh: "isSshCommand ''ssh''"
  by (simp add: isSshCommand_def)

lemma stripCommandFromArgs_isSshCommand: "isSshCommand (fst (stripCommandFromArgs args))"
proof (cases "filter isSshCommand args = []")
  case True
  then show ?thesis by (simp add: stripCommandFromArgs_command isSshCommand_ssh)
next
  case False
  then show ?thesis using last_filter_holds [of isSshCommand args]
    by (simp add: stripCommandFromArgs_command)
qed

text \<open>With one of the three tool names the body reaches \<^verbatim>\<open>cmd.Start()\<close> with one
  command, whatever the operating system answers; its error, if any, is the operating
  system's.\<close>

lemma restart_with_cases:
  assumes "isSshCommand c"
  shows "restartNodeBySystemdUnit_with env node unitName c rem =
           ([(c, ''run'' # rem @
                (if c = ''ssh''
                 then [Host node, remoteRestartCommand_Sprintf unitName]
                 else [remoteRestartCommand_Sprintf unitName, Host node]))],
            map_option ExternalError
              (case cmd_Start env (c, ''run'' # rem @
                      (if c = ''ssh''
                       then [Host node, remoteRestartCommand_Sprintf unitName]
                       else [remoteRestartCommand_Sprintf unitName, Host node])) of
                 Some err \<Rightarrow> Some err
               | None \<Rightarrow> cmd_Wait env (c, ''run'' # rem @
                      (if c = ''ssh''
                       then [Host node, remoteRestartCommand_Sprintf unitName]
                       else [remoteRestartCommand_Sprintf unitName, Host node]))))"
proof (cases "c = ''ssh''")
  case True
  show ?thesis
    unfolding restartNodeBySystemdUnit_with_def Let_def
    by (simp only: True if_True sum.case append_Cons append_Nil) (simp split: option.split)
next
  case False
  with assms have c: "c = ''nssh'' \<or> c = ''pssh''" by (auto simp only: isSshCommand_def)
  show ?thesis
    unfolding restartNodeBySystemdUnit_with_def Let_def
    by (simp only: False c if_True if_False sum.case append_Cons append_Nil)
       (simp split: option.split)
qed

lemma restart_with_started:
  assumes "isSshCommand c"
  shows "fst (restartNodeBySystemdUnit_with env node unitName c rem) =
     [(c, ''run'' # rem @
          (if c = ''ssh''
           then [Host node, remoteRestartCommand_Sprintf unitName]
           else [remoteRestartCommand_Sprintf unitName, Host node]))]"
  by (simp only: restart_with_cases [OF assms] fst_conv)

lemma restart_with_error:
  assumes "isSshCommand c"
  shows "snd (restartNodeBySystemdUnit_with env node unitName c rem) \<noteq> Some (UnsupportedSshCommand c')"
  by (simp only: restart_with_cases [OF assms] snd_conv) auto




text \<open>
  C10. For every argument list \<^verbatim>\<open>stripCommandFromArgs\<close> returns one of \<^verbatim>\<open>ssh\<close>,
  \<^verbatim>\<open>pssh\<close>, \<^verbatim>\<open>nssh\<close>; so \<^verbatim>\<open>restartNodeBySystemdUnit\<close> never leaves through the default
  case of its switch: it always hands a command to \<^verbatim>\<open>cmd.Start()\<close> and its result is
  never the "Supported ssh commands" error.
\<close>

theorem unsupported_command_unreachable:
  "isSshCommand (fst (stripCommandFromArgs args))
   \<and> fst (restartNodeBySystemdUnit env node unitName args) \<noteq> []
   \<and> snd (restartNodeBySystemdUnit env node unitName args) \<noteq> Some (UnsupportedSshCommand c)"
proof (intro conjI)
  show "isSshCommand (fst (stripCommandFromArgs args))"
    by (rule stripCommandFromArgs_isSshCommand)
  show "fst (restartNodeBySystemdUnit env node unitName args) \<noteq> []"
    unfolding restartNodeBySystemdUnit_def
    by (simp only: restart_with_started [OF stripCommandFromArgs_isSshCommand]) simp
  show "snd (restartNodeBySystemdUnit env node unitName args) \<noteq> Some (UnsupportedSshCommand c)"
    unfolding restartNodeBySystemdUnit_def
    by (rule restart_with_error [OF stripCommandFromArgs_isSshCommand])
qed

theorem unsupported_command_unreachable_witness:
  "fst (stripCommandFromArgs [''-o'', ''nssh'', ''nsshx'']) = ''nssh''
   \<and> snd (restartNodeBySystemdUnit successOs \<lparr>NodeId = 1, Host = ''h1.example.com'', Type = Storage\<rparr>
            ''kikimr'' [''-o'', ''nssh'', ''nsshx'']) \<noteq> Some (UnsupportedSshCommand ''nsshx'')"
  using unsupported_command_unreachable [of "[''-o'', ''nssh'', ''nsshx'']" successOs
          "\<lparr>NodeId = 1, Host = ''h1.example.com'', Type = Storage\<rparr>" "''kikimr''" "''nsshx''"]
  by (simp add: stripCommandFromArgs_def)

subsection \<open>\<^verbatim>\<open>StorageBaremetalRestarter\<close>\<close>

text \<open>
  C5. For every node, \<^verbatim>\<open>RestartNode\<close> starts one command whose arguments hold the node's
  host and the remote shell command that restarts the systemd unit
  \<^verbatim>\<open>ydb-server-storage.service\<close>, or the unit \<^verbatim>\<open>kikimr\<close> when the option
  \<^verbatim>\<open>kikimrStorageUnit\<close> is set; which unit it is depends on that option alone.
\<close>

theorem RestartNode_unit:
  "fst (RestartNode r env node) =
     [(fst (stripCommandFromArgs (sshArgs (Opts r))),
       ''run'' # snd (stripCommandFromArgs (sshArgs (Opts r))) @
         (if fst (stripCommandFromArgs (sshArgs (Opts r))) = ''ssh''
          then [Host node,
                ''(test -x /bin/systemctl && sudo systemctl restart '' @
                  (if kikimrStorageUnit (Opts r) then ''kikimr'' else ''ydb-server-storage.service'')
                  @ '')'']
          else [''(test -x /bin/systemctl && sudo systemctl restart '' @
                  (if kikimrStorageUnit (Opts r) then ''kikimr'' else ''ydb-server-storage.service'')
                  @ '')'',
                Host node]))]"
proof -
  have unit: "(if kikimrStorageUnit (Opts r) then internalStorageSystemdUnit
               else defaultStorageSystemdUnit) =
              (if kikimrStorageUnit (Opts r) then ''kikimr'' else ''ydb-server-storage.service'')"
    by (simp only: internalStorageSystemdUnit_def defaultStorageSystemdUnit_def)
  show ?thesis
    unfolding RestartNode_def Let_def restartNodeBySystemdUnit_def unit
    by (simp only: restart_with_started [OF stripCommandFromArgs_isSshCommand]
          remoteRestartCommand_Sprintf_def)
qed

theorem RestartNode_unit_witness:
  "fst (RestartNode \<lparr>Opts = \<lparr>sshArgs = [''pssh'', ''-A''], kikimrStorageUnit = False\<rparr>\<rparr> successOs
          \<lparr>NodeId = 7, Host = ''storage-7.example.com'', Type = Storage\<rparr>) =
     [(''pssh'', [''run'', ''-A'',
         ''(test -x /bin/systemctl && sudo systemctl restart ydb-server-storage.service)'',
         ''storage-7.example.com''])]
   \<and> fst (RestartNode \<lparr>Opts = \<lparr>sshArgs = [], kikimrStorageUnit = True\<rparr>\<rparr> successOs
          \<lparr>NodeId = 7, Host = ''storage-7.example.com'', Type = Storage\<rparr>) =
     [(''ssh'', [''run'', ''storage-7.example.com'',
         ''(test -x /bin/systemctl && sudo systemctl restart kikimr)''])]"
  using RestartNode_unit [of "\<lparr>Opts = \<lparr>sshArgs = [''pssh'', ''-A''], kikimrStorageUnit = False\<rparr>\<rparr>" successOs
          "\<lparr>NodeId = 7, Host = ''storage-7.example.com'', Type = Storage\<rparr>"]
        RestartNode_unit [of "\<lparr>Opts = \<lparr>sshArgs = [], kikimrStorageUnit = True\<rparr>\<rparr>" successOs
          "\<lparr>NodeId = 7, Host = ''storage-7.example.com'', Type = Storage\<rparr>"]
  by (simp add: stripCommandFromArgs_def)

lemma Contains_iff: "Contains xs x \<longleftrightarrow> x \<in> set xs"
  by (induction xs) auto

text \<open>
  C8. For every list of cluster nodes and every filter, \<^verbatim>\<open>Filter\<close> returns nodes of the
  input only, each of storage type and each matching the filter by its node id or by
  its host.
\<close>

theorem Filter_storage_subset:
  "set (Filter r spec cluster) \<subseteq> set (AllNodes cluster)
   \<and> (\<forall>node \<in> set (Filter r spec cluster).
         Type node = Storage
         \<and> (NodeId node \<in> set (SelectedNodeIds spec) \<or> Host node \<in> set (SelectedHostFQDNs spec)))"
  by (auto simp: Filter_def FilterByNodeIdOrFQDN_def FilterStorageNodes_def Contains_iff)

theorem Filter_storage_subset_witness:
  "Filter \<lparr>Opts = \<lparr>sshArgs = [], kikimrStorageUnit = False\<rparr>\<rparr>
     \<lparr>SelectedNodeIds = [1, 2], SelectedHostFQDNs = [''c.example.com'']\<rparr>
     \<lparr>AllNodes = [\<lparr>NodeId = 1, Host = ''a.example.com'', Type = Storage\<rparr>,
                  \<lparr>NodeId = 2, Host = ''b.example.com'', Type = Dynamic ''/Root/db''\<rparr>,
                  \<lparr>NodeId = 3, Host = ''c.example.com'', Type = Storage\<rparr>,
                  \<lparr>NodeId = 4, Host = ''d.example.com'', Type = Storage\<rparr>]\<rparr>
     = [\<lparr>NodeId = 1, Host = ''a.example.com'', Type = Storage\<rparr>,
        \<lparr>NodeId = 3, Host = ''c.example.com'', Type = Storage\<rparr>]
   \<and> set (Filter \<lparr>Opts = \<lparr>sshArgs = [], kikimrStorageUnit = False\<rparr>\<rparr>
     \<lparr>SelectedNodeIds = [1, 2], SelectedHostFQDNs = [''c.example.com'']\<rparr>
     \<lparr>AllNodes = [\<lparr>NodeId = 1, Host = ''a.example.com'', Type = Storage\<rparr>,
                  \<lparr>NodeId = 2, Host = ''b.example.com'', Type = Dynamic ''/Root/db''\<rparr>,
                  \<lparr>NodeId = 3, Host = ''c.example.com'', Type = Storage\<rparr>,
                  \<lparr>NodeId = 4, Host = ''d.example.com'', Type = Storage\<rparr>]\<rparr>)
     \<subseteq> {\<lparr>NodeId = 1, Host = ''a.example.com'', Type = Storage\<rparr>,
         \<lparr>NodeId = 2, Host = ''b.example.com'', Type = Dynamic ''/Root/db''\<rparr>,
         \<lparr>NodeId = 3, Host = ''c.example.com'', Type = Storage\<rparr>,
         \<lparr>NodeId = 4, Host = ''d.example.com'', Type = Storage\<rparr>}"
  using Filter_storage_subset [of "\<lparr>Opts = \<lparr>sshArgs = [], kikimrStorageUnit = False\<rparr>\<rparr>"
     "\<lparr>SelectedNodeIds = [1, 2], SelectedHostFQDNs = [''c.example.com'']\<rparr>"
     "\<lparr>AllNodes = [\<lparr>NodeId = 1, Host = ''a.example.com'', Type = Storage\<rparr>,
                  \<lparr>NodeId = 2, Host = ''b.example.com'', Type = Dynamic ''/Root/db''\<rparr>,
                  \<lparr>NodeId = 3, Host = ''c.example.com'', Type = Storage\<rparr>,
                  \<lparr>NodeId = 4, Host = ''d.example.com'', Type = Storage\<rparr>]\<rparr>"]
  by (simp add: Filter_def FilterByNodeIdOrFQDN_def FilterStorageNodes_def)

subsection \<open>\<^verbatim>\<open>GetRestartDuration\<close>\<close>

lemma sint_word_of_int_64:
  "- (2 ^ 63) \<le> k \<Longrightarrow> k < 2 ^ 63 \<Longrightarrow> sint (word_of_int k :: 64 word) = k"
  by (simp add: sint_sbintrunc' signed_take_bit_int_eq_self)

lemma sdiv_nonneg: "0 \<le> p \<Longrightarrow> (1000000000 * p) sdiv (1000000000 :: int) = p"
  by (simp add: signed_divide_int_def sgn_if)

lemma word_of_int_sint_64: "word_of_int (sint w) = (w :: 64 word)"
  by simp

text \<open>The wrapping product of the three durations is the product of the integers, reduced
  to 64 bits.\<close>

lemma product_as_word_of_int:
  "time_Second * d * r = (word_of_int (1000000000 * (sint d * sint r)) :: 64 word)"
proof -
  have "(word_of_int (1000000000 * (sint d * sint r)) :: 64 word)
          = word_of_int 1000000000 * (word_of_int (sint d) * word_of_int (sint r))"
    by (simp only: wi_hom_syms)
  also have "\<dots> = 1000000000 * (d * r)"
    by (simp only: word_of_int_sint_64 word_of_int_numeral)
  finally show ?thesis by (simp add: time_Second_def mult.assoc)
qed

lemma durationpb_New_whole_seconds:
  assumes "0 \<le> p" and "p \<le> 9223372036"
  shows "durationpb_New (word_of_int (1000000000 * p)) = \<lparr>Seconds = word_of_int p, Nanos = 0\<rparr>"
proof -
  from assms have range: "- (2 ^ 63) \<le> 1000000000 * p" "1000000000 * p < 2 ^ 63" by simp_all
  have s: "sint (word_of_int (1000000000 * p) :: 64 word) = 1000000000 * p"
    by (rule sint_word_of_int_64 [OF range])
  have n: "(word_of_int (1000000000 * p) :: 64 word) - word_of_int p * 1000000000 = 0"
    by (simp add: wi_hom_syms)
  show ?thesis
    unfolding durationpb_New_def Let_def s sdiv_nonneg [OF assms(1)] n by simp
qed

text \<open>
  C2, as amended. For every pair of non-negative \<^verbatim>\<open>RestartDuration\<close> and
  \<^verbatim>\<open>RestartRetryNumber\<close> whose product is at most 9223372036, the largest number of
  seconds whose nanoseconds fit the signed 64 bits of \<^verbatim>\<open>time.Duration\<close>,
  \<^verbatim>\<open>GetRestartDuration\<close> returns exactly that product in seconds and no nanoseconds:
  3 and 3 give 9 seconds, a retry number of 0 gives the zero duration.
\<close>

theorem GetRestartDuration_seconds:
  assumes "0 \<le> sint (RestartDuration opts)" and "0 \<le> sint (RestartRetryNumber opts)"
    and "sint (RestartDuration opts) * sint (RestartRetryNumber opts) \<le> 9223372036"
  shows "sint (Seconds (GetRestartDuration opts))
           = sint (RestartDuration opts) * sint (RestartRetryNumber opts)
         \<and> Nanos (GetRestartDuration opts) = 0"
proof -
  let ?p = "sint (RestartDuration opts) * sint (RestartRetryNumber opts)"
  from assms(1,2) have p0: "0 \<le> ?p" by simp
  have "GetRestartDuration opts = \<lparr>Seconds = word_of_int ?p, Nanos = 0\<rparr>"
    unfolding GetRestartDuration_def product_as_word_of_int
    by (rule durationpb_New_whole_seconds [OF p0 assms(3)])
  moreover have "sint (word_of_int ?p :: 64 word) = ?p"
    using p0 assms(3) by (intro sint_word_of_int_64) simp_all
  ultimately show ?thesis by simp
qed

theorem GetRestartDuration_seconds_witness:
  "sint (Seconds (GetRestartDuration defaultOptions)) = 9
   \<and> Nanos (GetRestartDuration defaultOptions) = 0
   \<and> sint (Seconds (GetRestartDuration (defaultOptions\<lparr>RestartRetryNumber := 0\<rparr>))) = 0
   \<and> Nanos (GetRestartDuration (defaultOptions\<lparr>RestartRetryNumber := 0\<rparr>)) = 0"
  using GetRestartDuration_seconds [of defaultOptions]
        GetRestartDuration_seconds [of "defaultOptions\<lparr>RestartRetryNumber := 0\<rparr>"]
  by (simp add: defaultOptions_def DefaultRestartDuration_def DefaultRetryCount_def)

text \<open>
  C2, as stated, fails: with a restart duration of 10000000000 seconds and one retry, both
  non-negative, the nanoseconds leave the 64 bits and the result is a negative number of
  seconds, not the product.
\<close>

theorem GetRestartDuration_overflow_counterexample:
  "0 \<le> sint (RestartDuration (defaultOptions\<lparr>RestartDuration := 10000000000, RestartRetryNumber := 1\<rparr>))
   \<and> 0 \<le> sint (RestartRetryNumber (defaultOptions\<lparr>RestartDuration := 10000000000, RestartRetryNumber := 1\<rparr>))
   \<and> sint (RestartDuration (defaultOptions\<lparr>RestartDuration := 10000000000, RestartRetryNumber := 1\<rparr>))
       * sint (RestartRetryNumber (defaultOptions\<lparr>RestartDuration := 10000000000, RestartRetryNumber := 1\<rparr>))
       = 10000000000
   \<and> sint (Seconds (GetRestartDuration
        (defaultOptions\<lparr>RestartDuration := 10000000000, RestartRetryNumber := 1\<rparr>))) = - 8446744073
   \<and> sint (Nanos (GetRestartDuration
        (defaultOptions\<lparr>RestartDuration := 10000000000, RestartRetryNumber := 1\<rparr>))) = - 709551616"
  by (simp add: defaultOptions_def GetRestartDuration_def durationpb_New_def time_Second_def
        signed_divide_int_def Let_def)

subsection \<open>\<^verbatim>\<open>GetNodeIds\<close> and \<^verbatim>\<open>GetNodeFQDNs\<close>\<close>

lemmas Atoi_eval = Atoi_def ParseUint_def isDigit_def maxUint64_def

lemmas url_Parse_eval = url_Parse_def parse_def Cut_def stringContainsCTLByte_def getScheme_def
  isAlpha_def

lemma GetNodeIds_loop_ok:
  "list_all isNodeId hs \<Longrightarrow>
   GetNodeIds_loop ids hs = Inr (ids @ map (\<lambda>h. word_of_int (projr (Atoi h))) hs)"
proof (induction hs arbitrary: ids)
  case Nil
  show ?case by simp
next
  case (Cons h hs)
  from Cons.prems have h: "isNodeId h" and rest: "list_all isNodeId hs" by simp_all
  from h obtain n where n: "Atoi h = Inr n" "0 \<le> n"
    by (auto simp: isNodeId_def split: sum.splits)
  show ?case using n Cons.IH [OF rest] by simp
qed

lemma GetNodeIds_loop_err:
  "\<not> list_all isNodeId hs \<Longrightarrow> \<exists>e. GetNodeIds_loop ids hs = Inl e"
proof (induction hs arbitrary: ids)
  case Nil
  then show ?case by simp
next
  case (Cons h hs)
  show ?case
  proof (cases "isNodeId h")
    case True
    then obtain n where n: "Atoi h = Inr n" "0 \<le> n"
      by (auto simp: isNodeId_def split: sum.splits)
    from True Cons.prems have "\<not> list_all isNodeId hs" by simp
    from Cons.IH [OF this] show ?thesis using n by simp
  next
    case False
    then show ?thesis by (auto simp: isNodeId_def split: sum.splits)
  qed
qed

lemma GetNodeFQDNs_loop_ok:
  "list_all (\<lambda>h. url_Parse h = None) hs \<Longrightarrow> GetNodeFQDNs_loop acc hs = Inr (acc @ hs)"
  by (induction hs arbitrary: acc) auto

lemma GetNodeFQDNs_loop_err:
  "\<not> list_all (\<lambda>h. url_Parse h = None) hs \<Longrightarrow> \<exists>e. GetNodeFQDNs_loop acc hs = Inl e"
  by (induction hs arbitrary: acc) (auto split: option.splits)

text \<open>What \<^verbatim>\<open>GetNodeFQDNs\<close> checks is \<^verbatim>\<open>url.Parse\<close> and nothing else: it returns all the
  hosts when \<^verbatim>\<open>url.Parse\<close> accepts every one, and an error otherwise.\<close>

lemma GetNodeFQDNs_ok:
  "list_all (\<lambda>h. url_Parse h = None) (Hosts opts) \<Longrightarrow> GetNodeFQDNs opts = Inr (Hosts opts)"
  unfolding GetNodeFQDNs_def using GetNodeFQDNs_loop_ok [of "Hosts opts" "[]"] by simp

lemma GetNodeFQDNs_err:
  "\<not> list_all (\<lambda>h. url_Parse h = None) (Hosts opts) \<Longrightarrow> \<exists>e. GetNodeFQDNs opts = Inl e"
  unfolding GetNodeFQDNs_def by (rule GetNodeFQDNs_loop_err)

lemma GetNodeIds_err:
  "\<not> list_all isNodeId (Hosts opts) \<Longrightarrow> \<exists>e. GetNodeIds opts = Inl e"
  unfolding GetNodeIds_def by (rule GetNodeIds_loop_err)

text \<open>
  C6. The claim is that \<^verbatim>\<open>GetNodeIds\<close>, when no entry fails to parse or is negative,
  returns the parsed ids of the entries. The code evaluated at the list with the single
  entry \<^verbatim>\<open>4294967297\<close>: \<^verbatim>\<open>strconv.Atoi\<close> parses it to 4294967297, the check
  \<^verbatim>\<open>id < 0\<close> lets it pass, the conversion \<^verbatim>\<open>uint32(id)\<close> keeps its low 32 bits, and the
  id returned, without error, is 1.
\<close>

theorem GetNodeIds_accepts_out_of_range_id:
  "Atoi ''4294967297'' = Inr 4294967297
   \<and> GetNodeIds (defaultOptions\<lparr>Hosts := [''4294967297'']\<rparr>) = Inr [1]
   \<and> uint (1 :: 32 word) \<noteq> 4294967297"
  by (simp add: defaultOptions_def GetNodeIds_def Atoi_eval)

text \<open>
  C7. The claim is that \<^verbatim>\<open>GetNodeFQDNs\<close> returns an error whenever some entry of a
  non-empty hosts list is not syntactically a host reference. The code evaluated at the list
  with the single entry \<^verbatim>\<open>not a host!\<close>, which has spaces and is no network address and no
  FQDN: \<^verbatim>\<open>url.Parse\<close> reads it as a relative path, and the entry is returned without error.
\<close>

theorem GetNodeFQDNs_accepts_non_host:
  "GetNodeFQDNs (defaultOptions\<lparr>Hosts := [''not a host!'']\<rparr>) = Inr [''not a host!'']"
  by (simp add: defaultOptions_def GetNodeFQDNs_def url_Parse_eval isDigit_def)

subsection \<open>\<^verbatim>\<open>Validate\<close>\<close>

lemma AvailabilityModes_set: "set AvailabilityModes = {''strong'', ''weak'', ''force''}"
  by (simp add: AvailabilityModes_def)

text \<open>
  C3. For every value of the options, \<^verbatim>\<open>Validate\<close> returns an error if the availability
  mode is not one of \<^verbatim>\<open>strong\<close>, \<^verbatim>\<open>weak\<close>, \<^verbatim>\<open>force\<close>, or the restart duration is
  negative, or the retry number is negative. Conversely, when the CMS sub-options validate
  and the hosts are all node ids or are all accepted as FQDNs, \<^verbatim>\<open>Validate\<close> returns
  \<^verbatim>\<open>nil\<close> whenever the mode is one of the three and both numbers are non-negative, zero
  included.
\<close>

theorem Validate_errors_and_success:
  "(AvailabilityMode opts \<notin> {''strong'', ''weak'', ''force''}
      \<or> sint (RestartDuration opts) < 0 \<or> sint (RestartRetryNumber opts) < 0
    \<longrightarrow> Validate CMS_Validate opts \<noteq> None)
   \<and> (CMS_Validate (CMS opts) = None
      \<and> (list_all isNodeId (Hosts opts) \<or> list_all (\<lambda>h. url_Parse h = None) (Hosts opts))
      \<and> AvailabilityMode opts \<in> {''strong'', ''weak'', ''force''}
      \<and> 0 \<le> sint (RestartDuration opts) \<and> 0 \<le> sint (RestartRetryNumber opts)
    \<longrightarrow> Validate CMS_Validate opts = None)"
proof (intro conjI impI)
  assume "AvailabilityMode opts \<notin> {''strong'', ''weak'', ''force''}
      \<or> sint (RestartDuration opts) < 0 \<or> sint (RestartRetryNumber opts) < 0"
  then show "Validate CMS_Validate opts \<noteq> None"
    unfolding Validate_def Contains_iff AvailabilityModes_set by auto
next
  assume a: "CMS_Validate (CMS opts) = None
      \<and> (list_all isNodeId (Hosts opts) \<or> list_all (\<lambda>h. url_Parse h = None) (Hosts opts))
      \<and> AvailabilityMode opts \<in> {''strong'', ''weak'', ''force''}
      \<and> 0 \<le> sint (RestartDuration opts) \<and> 0 \<le> sint (RestartRetryNumber opts)"
  then have "(\<exists>ids. GetNodeIds opts = Inr ids) \<or> (\<exists>hs. GetNodeFQDNs opts = Inr hs)"
    unfolding GetNodeIds_def GetNodeFQDNs_def
    using GetNodeIds_loop_ok [of "Hosts opts" "[]"] GetNodeFQDNs_loop_ok [of "Hosts opts" "[]"]
    by blast
  then have "(case (GetNodeIds opts, GetNodeFQDNs opts) of
           (Inl errFromIds, Inl errFromFQDNs) \<Rightarrow> Some (FailedToParseHosts errFromIds errFromFQDNs)
         | _ \<Rightarrow> CMS_Validate (CMS opts)) = CMS_Validate (CMS opts)"
    by (auto split: sum.splits)
  with a show "Validate CMS_Validate opts = None"
    unfolding Validate_def Contains_iff AvailabilityModes_set by auto
qed

lemmas Validate_eval = Validate_def defaultOptions_def AvailabilityModes_def
  DefaultRestartDuration_def DefaultRetryCount_def GetNodeIds_def GetNodeFQDNs_def

theorem Validate_errors_and_success_witness:
  "Validate (\<lambda>cms. None) (defaultOptions\<lparr>AvailabilityMode := ''safe''\<rparr>)
     = Some (UnsupportedAvailabilityMode ''safe'')
   \<and> Validate (\<lambda>cms. None) (defaultOptions\<lparr>RestartDuration := - 1\<rparr>)
     = Some (InvalidRestartDuration (- 1))
   \<and> Validate (\<lambda>cms. None) (defaultOptions\<lparr>RestartRetryNumber := - 2\<rparr>)
     = Some (InvalidRestartRetryNumber (- 2))
   \<and> list_all isNodeId [''1'', ''2'']
   \<and> Validate (\<lambda>cms. None)
       (defaultOptions\<lparr>AvailabilityMode := ''force'', Hosts := [''1'', ''2''],
                       RestartDuration := 0, RestartRetryNumber := 0\<rparr>) = None"
  using Validate_errors_and_success [of "defaultOptions\<lparr>AvailabilityMode := ''safe''\<rparr>" "\<lambda>cms. None"]
        Validate_errors_and_success [of "defaultOptions\<lparr>RestartDuration := - 1\<rparr>" "\<lambda>cms. None"]
        Validate_errors_and_success [of "defaultOptions\<lparr>RestartRetryNumber := - 2\<rparr>" "\<lambda>cms. None"]
        Validate_errors_and_success [of "defaultOptions\<lparr>AvailabilityMode := ''force'', Hosts := [''1'', ''2''],
                       RestartDuration := 0, RestartRetryNumber := 0\<rparr>" "\<lambda>cms. None"]
  by (simp add: Validate_eval isNodeId_def Atoi_eval)

text \<open>
  C1. The claim is that \<^verbatim>\<open>Validate\<close> returns an error whenever the hosts mix FQDNs and
  node ids. The code evaluated at the hosts \<^verbatim>\<open>host.example.com\<close> and \<^verbatim>\<open>1\<close>, with the
  default mode and numbers and CMS sub-options that validate: \<^verbatim>\<open>GetNodeIds\<close> fails on
  the first entry, \<^verbatim>\<open>GetNodeFQDNs\<close> accepts both, since \<^verbatim>\<open>url.Parse\<close> reads \<^verbatim>\<open>1\<close> as a
  relative path, and \<^verbatim>\<open>Validate\<close> returns \<^verbatim>\<open>nil\<close>.
\<close>

theorem Validate_accepts_mixed_hosts:
  "GetNodeIds (defaultOptions\<lparr>Hosts := [''host.example.com'', ''1'']\<rparr>)
     = Inl (FailedToParseNodeId ErrSyntax)
   \<and> GetNodeFQDNs (defaultOptions\<lparr>Hosts := [''host.example.com'', ''1'']\<rparr>)
     = Inr [''host.example.com'', ''1'']
   \<and> Validate (\<lambda>cms. None) (defaultOptions\<lparr>Hosts := [''host.example.com'', ''1'']\<rparr>) = None"
  by (simp add: Validate_eval Atoi_eval url_Parse_eval)

end
